theory Spec2Isabelle
  imports Complex_Main "HOL-Library.Word" "HOL-Library.Sublist"
begin

section \<open>JavaScript strings\<close>

text \<open>
  A JavaScript string is a sequence of UTF-16 code units; \<open>length\<close>, \<open>slice\<close> and
  \<open>trim\<close> all work on code units. String literals of the sources are written as
  lists of code units.
\<close>

type_synonym jsstring = "16 word list"

text \<open>
  \<open>String.prototype.trim\<close> strips WhiteSpace and LineTerminator code points from both
  ends: TAB, LF, VT, FF, CR, SP, NBSP, the Unicode space separators, LS, PS and the
  byte-order mark.
\<close>

definition is_ws :: "16 word \<Rightarrow> bool" where
  "is_ws c \<longleftrightarrow> List.member
     [0x09, 0x0A, 0x0B, 0x0C, 0x0D, 0x20, 0xA0, 0x1680,
      0x2000, 0x2001, 0x2002, 0x2003, 0x2004, 0x2005, 0x2006, 0x2007, 0x2008, 0x2009, 0x200A,
      0x2028, 0x2029, 0x202F, 0x205F, 0x3000, 0xFEFF] c"

definition trim :: "jsstring \<Rightarrow> jsstring" where
  "trim s = rev (dropWhile is_ws (rev (dropWhile is_ws s)))"

text \<open>
  \<open>s.slice(start, end)\<close>: a negative index counts from the end of the string, both
  indices are clamped to \<open>[0, length]\<close>, and an empty range gives the empty string.
\<close>

definition slice_js :: "'a list \<Rightarrow> int \<Rightarrow> int \<Rightarrow> 'a list" where
  "slice_js s start end =
     (let len = int (length s);
          from = (if start < 0 then max (len + start) 0 else min start len);
          to = (if end < 0 then max (len + end) 0 else min end len)
      in take (nat (to - from)) (drop (nat from) s))"

text \<open>\<open>xs.join(sep)\<close> on an array of strings.\<close>

fun join_js :: "jsstring \<Rightarrow> jsstring list \<Rightarrow> jsstring" where
  "join_js sep [] = []"
| "join_js sep [x] = x"
| "join_js sep (x # y # ys) = x @ sep @ join_js sep (y # ys)"

text \<open>The decimal rendering of a non-negative integer inside a template literal.\<close>

fun decimal :: "nat \<Rightarrow> jsstring" where
  "decimal n = (if n < 10 then [0x30 + of_nat n]
                else decimal (n div 10) @ [0x30 + of_nat (n mod 10)])"

section \<open>The chunker: \<open>splitText\<close> of the ingestion script\<close>

text \<open>
  \<^verbatim>\<open>
  function splitText(text, size = 1000, overlap = 200) {
    const chunks = [];
    let i = 0;
    while (i < text.length) {
      const chunk = text.slice(i, i + size).trim();
      if (chunk) chunks.push(chunk);
      i += size - overlap;
    }
    return chunks;
  }
  \<close>
  The loop need not terminate, so it is a partial function: \<open>None\<close> means that the call
  does not return. The source has no \<open>throw\<close>, so there is no error result. The
  parameter \<open>size\<close> is called \<open>csize\<close> here; sizes are integers.
\<close>

partial_function (option) splitText_loop ::
  "jsstring \<Rightarrow> int \<Rightarrow> int \<Rightarrow> int \<Rightarrow> jsstring list \<Rightarrow> jsstring list option" where
  "splitText_loop text csize overlap i chunks =
     (if i < int (length text) then
        (let chunk = trim (slice_js text i (i + csize)) in
         splitText_loop text csize overlap (i + (csize - overlap))
           (if chunk \<noteq> [] then chunks @ [chunk] else chunks))
      else Some chunks)"

declare splitText_loop.simps [code]

definition splitText :: "jsstring \<Rightarrow> int \<Rightarrow> int \<Rightarrow> jsstring list option" where
  "splitText text csize overlap = splitText_loop text csize overlap 0 []"

section \<open>The retrieval endpoint: \<open>POST\<close> of \<open>knowledge-search/route.ts\<close>\<close>

subsection \<open>Request bodies\<close>

datatype json =
    JNull
  | JBool bool
  | JNum rat
  | JStr jsstring
  | JArr "json list"
  | JObj "(jsstring \<times> json) list"

datatype error = TypeError | EmbeddingError jsstring | StoreError jsstring

text \<open>
  What \<open>request.text()\<close> followed by \<open>JSON.parse\<close> gives: an empty text leaves
  \<open>body = {}\<close>, a failure of either call is caught and leaves \<open>body = {}\<close> too.
\<close>

datatype request_text = EmptyText | Malformed | Json json

fun parse_body :: "request_text \<Rightarrow> json" where
  "parse_body EmptyText = JObj []"
| "parse_body Malformed = JObj []"
| "parse_body (Json j) = j"

text \<open>
  Reading the property \<open>query\<close> or \<open>question\<close>: on \<open>null\<close> it throws a TypeError, on
  an object it is the value of the last field of that name, on any other value it is
  \<open>undefined\<close> (\<open>None\<close>).
\<close>

fun get_prop :: "json \<Rightarrow> jsstring \<Rightarrow> error + json option" where
  "get_prop JNull k = Inl TypeError"
| "get_prop (JObj fs) k = Inr (map_of (rev fs) k)"
| "get_prop (JBool b) k = Inr None"
| "get_prop (JNum n) k = Inr None"
| "get_prop (JStr s) k = Inr None"
| "get_prop (JArr xs) k = Inr None"

fun truthy :: "json option \<Rightarrow> bool" where
  "truthy None = False"
| "truthy (Some JNull) = False"
| "truthy (Some (JBool b)) = b"
| "truthy (Some (JNum n)) = (n \<noteq> 0)"
| "truthy (Some (JStr s)) = (s \<noteq> [])"
| "truthy (Some (JArr xs)) = True"
| "truthy (Some (JObj fs)) = True"

definition key_query :: jsstring where
  "key_query = [0x71, 0x75, 0x65, 0x72, 0x79]"

definition key_question :: jsstring where
  "key_question = [0x71, 0x75, 0x65, 0x73, 0x74, 0x69, 0x6F, 0x6E]"

text \<open>\<open>const query = body.query || body.question || ''\<close>\<close>

definition query_of :: "json \<Rightarrow> error + json" where
  "query_of body =
     (case get_prop body key_query of
        Inl e \<Rightarrow> Inl e
      | Inr q \<Rightarrow>
          if truthy q then Inr (the q)
          else (case get_prop body key_question of
                  Inl e \<Rightarrow> Inl e
                | Inr q' \<Rightarrow> if truthy q' then Inr (the q') else Inr (JStr [])))"

text \<open>
  \<open>query.trim()\<close>: only a string has the method; on any other value the call throws
  a TypeError.
\<close>

fun trim_receiver :: "json \<Rightarrow> error + jsstring" where
  "trim_receiver (JStr s) = Inr s"
| "trim_receiver JNull = Inl TypeError"
| "trim_receiver (JBool b) = Inl TypeError"
| "trim_receiver (JNum n) = Inl TypeError"
| "trim_receiver (JArr xs) = Inl TypeError"
| "trim_receiver (JObj fs) = Inl TypeError"

subsection \<open>Matches, items and the context string\<close>

text \<open>
  A match of the vector store: the score and the metadata may be missing, and so may
  each metadata field (\<open>None\<close> is \<open>undefined\<close>).
\<close>

record metadata =
  md_text :: "jsstring option"
  md_source :: "jsstring option"

record match =
  m_score :: "rat option"
  m_metadata :: "metadata option"

record item =
  item_score :: rat
  item_text :: jsstring
  item_source :: jsstring

definition unknown :: jsstring where
  "unknown = [0x75, 0x6E, 0x6B, 0x6E, 0x6F, 0x77, 0x6E]"

text \<open>\<open>a || d\<close> on an optional string: the empty string is falsy.\<close>

fun str_or :: "jsstring option \<Rightarrow> jsstring \<Rightarrow> jsstring" where
  "str_or None d = d"
| "str_or (Some s) d = (if s = [] then d else s)"

text \<open>\<open>match.score || 0\<close>: a missing score and the score 0 both give 0.\<close>

fun num_or :: "rat option \<Rightarrow> rat \<Rightarrow> rat" where
  "num_or None d = d"
| "num_or (Some x) d = (if x = 0 then d else x)"

definition to_item :: "match \<Rightarrow> item" where
  "to_item m =
     \<lparr>item_score = num_or (m_score m) 0,
      item_text = str_or (case m_metadata m of None \<Rightarrow> None | Some md \<Rightarrow> md_text md) [],
      item_source = str_or (case m_metadata m of None \<Rightarrow> None | Some md \<Rightarrow> md_source md) unknown\<rparr>"

text \<open>
  The literal \<open>0.1\<close> of the filter \<open>item.score > 0.1\<close> is the IEEE double nearest to
  one tenth, whose exact value is this fraction.
\<close>

definition threshold :: rat where
  "threshold = 3602879701896397 / 36028797018963968"

text \<open>
  The positional marker of the template in \<open>map\<close>: two newlines, the reference label
  in brackets with the number \<open>index + 1\<close>, a colon, a space and \<open>item.text\<close>.
\<close>

definition marker :: "nat \<Rightarrow> item \<Rightarrow> jsstring" where
  "marker index it =
     [0x0A, 0x0A, 0x3010, 0x53C2, 0x8003, 0x60C5, 0x5831] @ decimal (index + 1)
       @ [0x3011, 0x3A, 0x20] @ item_text it"

fun map_index :: "(nat \<Rightarrow> 'a \<Rightarrow> 'b) \<Rightarrow> nat \<Rightarrow> 'a list \<Rightarrow> 'b list" where
  "map_index f i [] = []"
| "map_index f i (x # xs) = f i x # map_index f (Suc i) xs"

definition make_context :: "item list \<Rightarrow> jsstring" where
  "make_context knowledgeItems =
     join_js [0x0A]
       (map_index marker 0 (filter (\<lambda>it. item_score it > threshold) knowledgeItems))"

subsection \<open>The handler\<close>

datatype error_field = NotConfigured | Caught error

record response =
  resp_status :: nat
  resp_success :: bool
  resp_context :: jsstring
  resp_error :: "error_field option"
  resp_sources :: "item list option"

datatype call = EmbeddingsCreate jsstring | IndexQuery "rat list" nat

text \<open>
  The environment of the handler: the two API keys (\<open>None\<close> when the variable is not
  set), and the two external services, each of which answers or fails.
\<close>

record env =
  PINECONE_API_KEY :: "jsstring option"
  OPENAI_API_KEY :: "jsstring option"
  embeddings_create :: "jsstring \<Rightarrow> error + rat list"
  index_query :: "rat list \<Rightarrow> nat \<Rightarrow> error + match list"

definition key_set :: "jsstring option \<Rightarrow> bool" where
  "key_set k = (case k of None \<Rightarrow> False | Some s \<Rightarrow> s \<noteq> [])"

text \<open>
  The body of the \<open>try\<close> block after the key check. The result is the response or the
  exception thrown, together with the network calls made so far.
\<close>

definition POST_try :: "env \<Rightarrow> request_text \<Rightarrow> (error + response) \<times> call list" where
  "POST_try e req =
     (case query_of (parse_body req) of
        Inl err \<Rightarrow> (Inl err, [])
      | Inr q \<Rightarrow>
          (case trim_receiver q of
             Inl err \<Rightarrow> (Inl err, [])
           | Inr query \<Rightarrow>
               if trim query = [] then
                 (Inr \<lparr>resp_status = 200, resp_success = False, resp_context = [],
                       resp_error = None, resp_sources = None\<rparr>, [])
               else
                 (case embeddings_create e query of
                    Inl err \<Rightarrow> (Inl err, [EmbeddingsCreate query])
                  | Inr queryVector \<Rightarrow>
                      (case index_query e queryVector 3 of
                         Inl err \<Rightarrow>
                           (Inl err, [EmbeddingsCreate query, IndexQuery queryVector 3])
                       | Inr matches \<Rightarrow>
                           (let knowledgeItems = map to_item matches;
                                ctx = make_context knowledgeItems
                            in (Inr \<lparr>resp_status = 200, resp_success = True,
                                     resp_context = slice_js ctx 0 500,
                                     resp_error = None,
                                     resp_sources = Some knowledgeItems\<rparr>,
                                [EmbeddingsCreate query, IndexQuery queryVector 3]))))))"

definition POST :: "env \<Rightarrow> request_text \<Rightarrow> response \<times> call list" where
  "POST e req =
     (if \<not> key_set (PINECONE_API_KEY e) \<or> \<not> key_set (OPENAI_API_KEY e) then
        (\<lparr>resp_status = 200, resp_success = False, resp_context = [],
          resp_error = Some NotConfigured, resp_sources = None\<rparr>, [])
      else
        (case POST_try e req of
           (Inr resp, calls) \<Rightarrow> (resp, calls)
         | (Inl err, calls) \<Rightarrow>
             (\<lparr>resp_status = 200, resp_success = False, resp_context = [],
               resp_error = Some (Caught err), resp_sources = None\<rparr>, calls)))"

section \<open>The client side\<close>

subsection \<open>\<open>searchKnowledge\<close>\<close>

text \<open>
  \<open>fetch('/api/knowledge-search', \<dots>)\<close> followed by \<open>response.json()\<close> either throws
  (no connection, a body that is not JSON) or gives the data of a response of the
  endpoint above. \<open>searchKnowledge\<close> catches every exception and returns the
  context only when \<open>data.success && data.context\<close>; it is the same function in
  \<open>TextInput.tsx\<close> and in the session component.
\<close>

datatype fetch_result = FetchThrows | FetchData response

fun searchKnowledge :: "fetch_result \<Rightarrow> jsstring" where
  "searchKnowledge FetchThrows = []"
| "searchKnowledge (FetchData d) =
     (if resp_success d \<and> resp_context d \<noteq> [] then resp_context d else [])"

subsection \<open>\<open>handleSend\<close> of \<open>TextInput.tsx\<close>\<close>

datatype TaskType = TALK | REPEAT

datatype TaskMode = SYNC | ASYNC

datatype sender = sendMessage | sendMessageSync | repeatMessage | repeatMessageSync

record text_input =
  message :: jsstring
  taskType :: TaskType
  taskMode :: TaskMode
  isSearching :: bool

fun sender_of :: "TaskType \<Rightarrow> TaskMode \<Rightarrow> sender" where
  "sender_of TALK SYNC = sendMessageSync"
| "sender_of TALK ASYNC = sendMessage"
| "sender_of REPEAT SYNC = repeatMessageSync"
| "sender_of REPEAT ASYNC = repeatMessage"

text \<open>
  The label put between the message and the retrieved context in the template of
  \<open>finalMessage\<close>: two newlines, the request to use the following information as a
  reference, a colon and a newline.
\<close>

definition reference_label :: jsstring where
  "reference_label =
     [0x0A, 0x0A, 0x4EE5, 0x4E0B, 0x306E, 0x60C5, 0x5831, 0x3092, 0x53C2, 0x8003,
      0x306B, 0x3057, 0x3066, 0x304F, 0x3060, 0x3055, 0x3044, 0x3A, 0x0A]"

text \<open>
  \<open>handleSend\<close> returns the new state of the component and the calls of the senders it
  made, in order. \<open>fetch\<close> is the network, given the query. The senders belong to a
  hook outside these sources: \<open>ok1\<close> says whether the call in the \<open>try\<close> block returns
  normally and \<open>ok2\<close> whether the call in the \<open>catch\<close> block does. When the second call
  throws too, \<open>setMessage("")\<close> is not reached; \<open>finally\<close> resets \<open>isSearching\<close>.
\<close>

definition handleSend ::
  "(jsstring \<Rightarrow> fetch_result) \<Rightarrow> bool \<Rightarrow> bool \<Rightarrow> text_input
     \<Rightarrow> text_input \<times> (sender \<times> jsstring) list" where
  "handleSend fetch ok1 ok2 st =
     (if trim (message st) = [] then (st, [])
      else
        (let knowledgeContext =
               (if taskType st = TALK then searchKnowledge (fetch (message st)) else []);
             finalMessage =
               (if knowledgeContext \<noteq> []
                then message st @ reference_label @ knowledgeContext
                else message st);
             snd_fn = sender_of (taskType st) (taskMode st)
         in if ok1 then
              (st\<lparr>message := [], isSearching := False\<rparr>, [(snd_fn, finalMessage)])
            else if ok2 then
              (st\<lparr>message := [], isSearching := False\<rparr>,
               [(snd_fn, finalMessage), (snd_fn, message st)])
            else
              (st\<lparr>isSearching := False\<rparr>,
               [(snd_fn, finalMessage), (snd_fn, message st)])))"

subsection \<open>The event handlers of \<open>startSessionV2\<close>\<close>

text \<open>
  The payload of an event: \<open>event.detail.message\<close>, \<open>event.detail.text\<close> and
  \<open>event.message\<close>, each of which may be missing.
\<close>

record payload =
  detail_message :: "jsstring option"
  detail_text :: "jsstring option"
  event_message :: "jsstring option"

text \<open>
  The handlers of \<open>USER_STOP\<close> and \<open>USER_END_MESSAGE\<close> are asynchronous: each runs up
  to \<open>await searchKnowledge(\<dots>)\<close>, where the request is sent, and is resumed when the
  answer arrives. Other events are handled in between. \<open>Resume\<close> is the arrival of the
  answer to the call with the given number.
\<close>

datatype event =
    USER_START
  | USER_TALKING_MESSAGE payload
  | USER_STOP
  | USER_END_MESSAGE payload
  | Resume nat fetch_result

datatype awaiting = InUserStop | InUserEndMessage

datatype effect = Search nat jsstring | Speak jsstring

record session =
  isVoice :: bool
  lastUserMessageRef :: jsstring
  pending :: "(nat \<times> awaiting) list"
  next_call :: nat
  effects :: "effect list"

text \<open>
  The text handed to \<open>avatar.speak\<close>: two newlines, the reference marker in brackets,
  a colon, a space and \<open>knowledgeContext\<close>.
\<close>

definition speak_text :: "jsstring \<Rightarrow> jsstring" where
  "speak_text knowledgeContext =
     [0x0A, 0x0A, 0x3010, 0x53C2, 0x8003, 0x60C5, 0x5831, 0x3011, 0x3A, 0x20]
       @ knowledgeContext"

definition start_search :: "session \<Rightarrow> awaiting \<Rightarrow> jsstring \<Rightarrow> session" where
  "start_search s k userMessage =
     s\<lparr>pending := pending s @ [(next_call s, k)],
       next_call := Suc (next_call s),
       effects := effects s @ [Search (next_call s) userMessage]\<rparr>"

fun handle :: "session \<Rightarrow> event \<Rightarrow> session" where
  "handle s USER_START = s\<lparr>lastUserMessageRef := []\<rparr>"
| "handle s (USER_TALKING_MESSAGE p) =
     (let msg = str_or (detail_message p) (str_or (detail_text p) [])
      in if msg \<noteq> [] then s\<lparr>lastUserMessageRef := msg\<rparr> else s)"
| "handle s USER_STOP =
     (if isVoice s \<and> lastUserMessageRef s \<noteq> []
      then start_search s InUserStop (lastUserMessageRef s)
      else s)"
| "handle s (USER_END_MESSAGE p) =
     (let userMessage =
            str_or (detail_message p)
              (str_or (detail_text p) (str_or (event_message p) (lastUserMessageRef s)))
      in if userMessage \<noteq> [] \<and> isVoice s
         then start_search s InUserEndMessage userMessage
         else s)"
| "handle s (Resume c r) =
     (case map_of (pending s) c of
        None \<Rightarrow> s
      | Some InUserEndMessage \<Rightarrow> s\<lparr>pending := filter (\<lambda>(c', k). c' \<noteq> c) (pending s)\<rparr>
      | Some InUserStop \<Rightarrow>
          (let knowledgeContext = searchKnowledge r;
               s' = s\<lparr>pending := filter (\<lambda>(c', k). c' \<noteq> c) (pending s)\<rparr>
           in if knowledgeContext \<noteq> []
              then s'\<lparr>effects := effects s' @ [Speak (speak_text knowledgeContext)]\<rparr>
              else s'))"

definition run :: "session \<Rightarrow> event list \<Rightarrow> session" where
  "run s evs = foldl handle s evs"

definition start_session :: "bool \<Rightarrow> session" where
  "start_session v =
     \<lparr>isVoice = v, lastUserMessageRef = [], pending = [], next_call = 0, effects = []\<rparr>"

definition searches :: "session \<Rightarrow> nat" where
  "searches s = length (filter (\<lambda>e. case e of Search c q \<Rightarrow> True | Speak t \<Rightarrow> False) (effects s))"

section \<open>Example inputs\<close>

text \<open>
  An environment whose store answers every query with two matches, one above and one
  below the threshold, the second without metadata; an environment whose embedding
  service fails; a request with the query \<open>"hi"\<close> and one with the query \<open>"   "\<close>.
\<close>

definition example_env :: env where
  "example_env =
     \<lparr>PINECONE_API_KEY = Some [0x70], OPENAI_API_KEY = Some [0x6F],
      embeddings_create = (\<lambda>q. Inr [1, 0]),
      index_query = (\<lambda>v k. Inr (take k
        [\<lparr>m_score = Some (41 / 50),
          m_metadata = Some \<lparr>md_text = Some [0x58], md_source = None\<rparr>\<rparr>,
         \<lparr>m_score = Some (1 / 20), m_metadata = None\<rparr>]))\<rparr>"

definition failing_env :: env where
  "failing_env =
     \<lparr>PINECONE_API_KEY = Some [0x70], OPENAI_API_KEY = Some [0x6F],
      embeddings_create = (\<lambda>q. Inl (EmbeddingError [])),
      index_query = (\<lambda>v k. Inr [])\<rparr>"



definition example_request :: request_text where
  "example_request = Json (JObj [(key_query, JStr [0x68, 0x69])])"

definition blank_request :: request_text where
  "blank_request = Json (JObj [(key_query, JStr [0x20, 0x20, 0x20])])"

text \<open>A text input holding \<open>"hi"\<close> in \<open>TALK\<close> mode, and a successful answer of the endpoint.\<close>

definition example_input :: text_input where
  "example_input = \<lparr>message = [0x68, 0x69], taskType = TALK, taskMode = ASYNC, isSearching = False\<rparr>"

definition example_data :: response where
  "example_data = \<lparr>resp_status = 200, resp_success = True, resp_context = [0x58],
       resp_error = None, resp_sources = Some []\<rparr>"

section \<open>Properties of the chunker\<close>

lemma splitText_loop_stop:
  "\<not> i < int (length text) \<Longrightarrow> splitText_loop text csize overlap i chunks = Some chunks"
  by (subst splitText_loop.simps) simp

lemma splitText_loop_step:
  "i < int (length text) \<Longrightarrow>
   splitText_loop text csize overlap i chunks =
     splitText_loop text csize overlap (i + (csize - overlap))
       (if trim (slice_js text i (i + csize)) \<noteq> []
        then chunks @ [trim (slice_js text i (i + csize))] else chunks)"
  by (subst splitText_loop.simps) (simp add: Let_def)

text \<open>With a positive stride the distance to the end of the text decreases.\<close>

lemma splitText_loop_terminates:
  assumes "overlap < csize"
  shows "\<exists>cs. splitText_loop text csize overlap i chunks = Some cs"
proof (induction "nat (int (length text) - i)" arbitrary: i chunks rule: less_induct)
  case less
  show ?case
  proof (cases "i < int (length text)")
    case False
    then show ?thesis by (simp add: splitText_loop_stop)
  next
    case True
    have "nat (int (length text) - (i + (csize - overlap))) < nat (int (length text) - i)"
      using True assms by linarith
    from less [OF this] show ?thesis
      by (simp only: splitText_loop_step [OF True])
  qed
qed

text \<open>
  With a stride that is not positive the index never reaches the end of the text, so no
  call of the loop returns.
\<close>

lemma splitText_loop_no_result:
  assumes "splitText_loop text csize overlap i chunks = Some y"
  shows "\<not> (csize \<le> overlap \<and> i < int (length text))"
proof (rule splitText_loop.raw_induct
    [where P = "\<lambda>t c ov j cs r. \<not> (c \<le> ov \<and> j < int (length t))", OF _ assms])
  fix f t c ov j cs r
  assume IH: "\<And>t c ov j cs r. f t c ov j cs = Some r \<Longrightarrow> \<not> (c \<le> ov \<and> j < int (length t))"
    and body: "(if j < int (length t)
      then let chunk = trim (slice_js t j (j + c))
           in f t c ov (j + (c - ov)) (if chunk \<noteq> [] then cs @ [chunk] else cs)
      else Some cs) = Some r"
  show "\<not> (c \<le> ov \<and> j < int (length t))"
  proof
    assume h: "c \<le> ov \<and> j < int (length t)"
    then have nxt: "j + (c - ov) < int (length t)" by linarith
    from body h obtain cs' where "f t c ov (j + (c - ov)) cs' = Some r"
      by (simp add: Let_def)
    from IH [OF this] h nxt show False by simp
  qed
qed

lemma splitText_loop_diverges:
  "csize \<le> overlap \<Longrightarrow> i < int (length text) \<Longrightarrow>
   splitText_loop text csize overlap i chunks = None"
  using splitText_loop_no_result [of "text" csize overlap i chunks]
  by (cases "splitText_loop text csize overlap i chunks") auto

lemma slice_js_whole: "int (length s) \<le> e \<Longrightarrow> slice_js s 0 e = s"
  by (simp add: slice_js_def Let_def)

text \<open>
  C7, as stated, fails: \<open>splitText\<close> does not check its parameters. With \<open>size = 1\<close> and
  \<open>overlap = 1\<close> the stride is 0, and on the text \<open>" "\<close> (one space) the loop stays at
  index 0, where the window is blank and nothing is pushed: the call neither raises an
  error nor returns.
\<close>

theorem splitText_no_fail_fast_counterexample:
  "\<not> (1::int) > 1 \<and> splitText [0x20] 1 1 = None"
  by (simp add: splitText_def splitText_loop_diverges)

text \<open>
  C7, amended: for every text and every \<open>size > overlap \<ge> 0\<close> the call of \<open>splitText\<close>
  terminates and returns a list of chunks.
\<close>

theorem splitText_terminates:
  assumes "0 \<le> overlap" and "overlap < csize"
  shows "\<exists>chunks. splitText text csize overlap = Some chunks"
  unfolding splitText_def using assms(2) by (rule splitText_loop_terminates)

theorem splitText_terminates_witness:
  "(0::int) \<le> 20 \<and> (20::int) < 100
   \<and> (\<exists>chunks. splitText [0x61, 0x62, 0x63] 100 20 = Some chunks)"
  using splitText_terminates [of 20 100 "[0x61, 0x62, 0x63]"] by simp

text \<open>
  C8, as stated, fails: the text \<open>"abc"\<close> is shorter than the size 4, and with overlap 2
  the window starts again at index 2, inside the text, so there are two chunks.
\<close>

theorem splitText_short_text_counterexample:
  "int (length [0x61, 0x62, 0x63 :: 16 word]) < 4 \<and> (0::int) \<le> 2 \<and> (2::int) < 4
   \<and> trim [0x61, 0x62, 0x63] = [0x61, 0x62, 0x63]
   \<and> splitText [0x61, 0x62, 0x63] 4 2 = Some [[0x61, 0x62, 0x63], [0x63]]"
  by (simp add: splitText_def splitText_loop_step splitText_loop_stop slice_js_def
      trim_def is_ws_def)

text \<open>
  C8, amended: for every text that is not longer than the stride \<open>size - overlap\<close>
  (with \<open>size > overlap \<ge> 0\<close>) and that is not empty after trimming, chunking yields
  exactly one chunk, the whole trimmed text.
\<close>

theorem splitText_single_chunk:
  assumes "0 \<le> overlap" and "overlap < csize"
    and "int (length text) \<le> csize - overlap" and "trim text \<noteq> []"
  shows "splitText text csize overlap = Some [trim text]"
proof -
  have "text \<noteq> []" using assms(4) by (auto simp: trim_def)
  then have lt: "0 < int (length text)" by simp
  have sl: "slice_js text 0 (0 + csize) = text"
    using assms by (simp add: slice_js_whole)
  have stop: "\<not> 0 + (csize - overlap) < int (length text)" using assms by simp
  show ?thesis
    unfolding splitText_def
    by (simp only: splitText_loop_step [OF lt] sl assms(4) splitText_loop_stop [OF stop]) simp
qed

theorem splitText_single_chunk_witness:
  "(0::int) \<le> 2 \<and> (2::int) < 10 \<and> int (length [0x20, 0x61, 0x62 :: 16 word]) \<le> 10 - 2
   \<and> trim [0x20, 0x61, 0x62] \<noteq> []
   \<and> splitText [0x20, 0x61, 0x62] 10 2 = Some [[0x61, 0x62]]"
proof -
  have t: "trim [0x20, 0x61, 0x62] = [0x61, 0x62]"
    by (simp add: trim_def is_ws_def)
  have "splitText [0x20, 0x61, 0x62] 10 2 = Some [trim [0x20, 0x61, 0x62]]"
    by (rule splitText_single_chunk) (simp_all add: t)
  then show ?thesis by (simp add: t)
qed

section \<open>Properties of the retrieval endpoint\<close>

lemma slice_js_prefix: "slice_js s 0 (int n) = take n s"
  by (simp add: slice_js_def Let_def min_def)

lemma slice_js_500: "slice_js s 0 500 = take 500 s"
  using slice_js_prefix [of s 500] by simp

lemma POST_context_length: "length (resp_context (fst (POST e req))) \<le> 500"
  by (simp add: POST_def POST_try_def Let_def slice_js_500 split: sum.splits prod.splits)

lemma POST_blank:
  assumes "query_of (parse_body req) = Inr (JStr q)" "trim q = []"
  shows "POST e req =
     (\<lparr>resp_status = 200, resp_success = False, resp_context = [],
       resp_error = (if key_set (PINECONE_API_KEY e) \<and> key_set (OPENAI_API_KEY e) then None else Some NotConfigured),
       resp_sources = None\<rparr>, [])"
  using assms by (simp add: POST_def POST_try_def)

lemma trim_all_ws: "list_all is_ws q \<Longrightarrow> trim q = []"
proof -
  assume "list_all is_ws q"
  then have h: "dropWhile is_ws q = []" by (simp add: list_all_iff)
  show ?thesis unfolding trim_def h by simp
qed

lemma POST_failure:
  assumes "key_set (PINECONE_API_KEY e)" "key_set (OPENAI_API_KEY e)"
    and "query_of (parse_body req) = Inr (JStr q)" "trim q \<noteq> []"
    and "embeddings_create e q = Inl err \<or>
         (\<exists>v. embeddings_create e q = Inr v \<and> index_query e v 3 = Inl err)"
  shows "fst (POST e req) =
     \<lparr>resp_status = 200, resp_success = False, resp_context = [],
       resp_error = Some (Caught err), resp_sources = None\<rparr>"
  using assms by (auto simp add: POST_def POST_try_def)

lemma POST_success_cases:
  assumes "resp_success (fst (POST e req))"
  obtains q v ms where
    "key_set (PINECONE_API_KEY e)" "key_set (OPENAI_API_KEY e)"
    "query_of (parse_body req) = Inr (JStr q)" "trim q \<noteq> []"
    "embeddings_create e q = Inr v" "index_query e v 3 = Inr ms"
    "POST e req =
       (\<lparr>resp_status = 200, resp_success = True,
         resp_context = take 500 (make_context (map to_item ms)),
         resp_error = None, resp_sources = Some (map to_item ms)\<rparr>,
        [EmbeddingsCreate q, IndexQuery v 3])"
proof -
  from assms have keys: "key_set (PINECONE_API_KEY e)" "key_set (OPENAI_API_KEY e)"
    by (auto simp: POST_def split: if_splits)
  from assms keys obtain j where j: "query_of (parse_body req) = Inr j"
    by (cases "query_of (parse_body req)") (auto simp: POST_def POST_try_def)
  from assms keys j obtain q where q: "j = JStr q"
    by (cases j) (auto simp: POST_def POST_try_def)
  from assms keys j q have t: "trim q \<noteq> []"
    by (auto simp: POST_def POST_try_def split: if_splits)
  from assms keys j q t obtain v where v: "embeddings_create e q = Inr v"
    by (cases "embeddings_create e q") (auto simp: POST_def POST_try_def)
  from assms keys j q t v obtain ms where ms: "index_query e v 3 = Inr ms"
    by (cases "index_query e v 3") (auto simp: POST_def POST_try_def)
  show ?thesis
    by (rule that [OF keys _ t v ms]) (simp_all add: j q POST_def POST_try_def keys t v ms Let_def slice_js_500)
qed

lemma query_of_query_only: "query_of (JObj [(key_query, JStr q)]) = Inr (JStr q)"
  by (simp add: query_of_def key_query_def key_question_def)

lemma trim_hi: "trim [0x68, 0x69] = [0x68, 0x69]"
  by (simp add: trim_def is_ws_def)

lemma example_POST:
  "POST example_env example_request =
     (\<lparr>resp_status = 200, resp_success = True,
       resp_context = [0x0A, 0x0A, 0x3010, 0x53C2, 0x8003, 0x60C5, 0x5831, 0x31, 0x3011, 0x3A, 0x20, 0x58],
       resp_error = None,
       resp_sources = Some [\<lparr>item_score = 41 / 50, item_text = [0x58], item_source = unknown\<rparr>,
                            \<lparr>item_score = 1 / 20, item_text = [], item_source = unknown\<rparr>]\<rparr>,
      [EmbeddingsCreate [0x68, 0x69], IndexQuery [1, 0] 3])"
  by (simp add: POST_def POST_try_def example_env_def example_request_def query_of_query_only
      key_set_def trim_hi to_item_def make_context_def threshold_def marker_def slice_js_500)

text \<open>
  C3: when the query of the request (\<open>body.query || body.question || ''\<close>) is a string
  that is empty or consists of whitespace only, the endpoint answers with status 200,
  \<open>success = false\<close> and \<open>context = ""\<close>, and makes no network call: neither the
  embedding service nor the vector store is called. With both API keys configured the
  response carries no error field.
\<close>

theorem blank_query_short_circuit:
  assumes "query_of (parse_body req) = Inr (JStr q)" and "list_all is_ws q"
  shows "resp_success (fst (POST e req)) = False \<and> resp_context (fst (POST e req)) = []
       \<and> resp_status (fst (POST e req)) = 200 \<and> resp_sources (fst (POST e req)) = None
       \<and> snd (POST e req) = []
       \<and> (resp_error (fst (POST e req)) = None
            \<longleftrightarrow> key_set (PINECONE_API_KEY e) \<and> key_set (OPENAI_API_KEY e))"
  using POST_blank [OF assms(1) trim_all_ws [OF assms(2)], of e] by simp

theorem blank_query_short_circuit_witness:
  "resp_success (fst (POST example_env blank_request)) = False
   \<and> resp_context (fst (POST example_env blank_request)) = []
   \<and> resp_status (fst (POST example_env blank_request)) = 200
   \<and> snd (POST example_env blank_request) = []
   \<and> resp_error (fst (POST example_env blank_request)) = None"
proof -
  have q: "query_of (parse_body blank_request) = Inr (JStr [0x20, 0x20, 0x20])"
    by (simp add: blank_request_def query_of_query_only)
  have w: "list_all is_ws [0x20, 0x20, 0x20]"
    by (simp add: is_ws_def)
  have k: "key_set (PINECONE_API_KEY example_env) \<and> key_set (OPENAI_API_KEY example_env)"
    by (simp add: example_env_def key_set_def)
  from blank_query_short_circuit [OF q w, of example_env] k show ?thesis by simp
qed





text \<open>
  C4: when the embedding service fails, or the vector store fails after the embedding
  succeeded, the endpoint answers with status 200, \<open>success = false\<close> and
  \<open>context = ""\<close>; the error is reported in the body instead of being thrown.
\<close>

theorem error_gives_soft_failure:
  assumes "key_set (PINECONE_API_KEY e)" and "key_set (OPENAI_API_KEY e)"
    and "query_of (parse_body req) = Inr (JStr q)" and "trim q \<noteq> []"
    and "embeddings_create e q = Inl err \<or>
         (\<exists>v. embeddings_create e q = Inr v \<and> index_query e v 3 = Inl err)"
  shows "fst (POST e req) =
     \<lparr>resp_status = 200, resp_success = False, resp_context = [],
       resp_error = Some (Caught err), resp_sources = None\<rparr>"
  using assms by (rule POST_failure)

theorem error_gives_soft_failure_witness:
  "fst (POST failing_env example_request) =
     \<lparr>resp_status = 200, resp_success = False, resp_context = [],
       resp_error = Some (Caught (EmbeddingError [])), resp_sources = None\<rparr>"
proof -
  have k: "key_set (PINECONE_API_KEY failing_env)" "key_set (OPENAI_API_KEY failing_env)"
    by (simp_all add: failing_env_def key_set_def)
  have q: "query_of (parse_body example_request) = Inr (JStr [0x68, 0x69])"
    by (simp add: example_request_def query_of_query_only)
  have t: "trim [0x68, 0x69] \<noteq> []" by (simp add: trim_hi)
  have f: "embeddings_create failing_env [0x68, 0x69] = Inl (EmbeddingError []) \<or>
     (\<exists>v. embeddings_create failing_env [0x68, 0x69] = Inr v
          \<and> index_query failing_env v 3 = Inl (EmbeddingError []))"
    by (simp add: failing_env_def)
  show ?thesis by (rule error_gives_soft_failure [OF k q t f])
qed

text \<open>
  C5: for every environment and every request, the context string of the response has
  at most 500 code units; in a successful response it is the first 500 code units of
  the concatenated marked texts, cut wherever that falls.
\<close>

theorem context_at_most_500:
  "length (resp_context (fst (POST e req))) \<le> 500
   \<and> (resp_success (fst (POST e req)) \<longrightarrow>
        resp_context (fst (POST e req)) =
          take 500 (make_context (the (resp_sources (fst (POST e req))))))"
proof (intro conjI impI)
  show "length (resp_context (fst (POST e req))) \<le> 500"
    by (rule POST_context_length)
next
  assume "resp_success (fst (POST e req))"
  then obtain q v ms where
    "POST e req =
       (\<lparr>resp_status = 200, resp_success = True,
         resp_context = take 500 (make_context (map to_item ms)),
         resp_error = None, resp_sources = Some (map to_item ms)\<rparr>,
        [EmbeddingsCreate q, IndexQuery v 3])"
    by (rule POST_success_cases)
  then show "resp_context (fst (POST e req)) =
          take 500 (make_context (the (resp_sources (fst (POST e req)))))"
    by simp
qed

theorem context_at_most_500_witness:
  "resp_success (fst (POST example_env example_request))
   \<and> length (resp_context (fst (POST example_env example_request))) \<le> 500
   \<and> resp_context (fst (POST example_env example_request)) =
       take 500 (make_context (the (resp_sources (fst (POST example_env example_request)))))"
proof -
  have ok: "resp_success (fst (POST example_env example_request))"
    by (simp add: example_POST)
  from context_at_most_500 [of example_env example_request] ok show ?thesis by blast
qed





text \<open>
  C10: in every successful response the store was queried with \<open>topK = 3\<close> and the
  \<open>sources\<close> array holds one item for each match the store returned, in the same
  order, whatever its score. A missing score becomes 0, a missing text the empty string
  and a missing source the string \<open>"unknown"\<close> (the code units u, n, k, n, o, w, n).
\<close>

theorem sources_hold_all_matches:
  "(resp_success (fst (POST e req)) \<longrightarrow>
     (\<exists>q v ms.
        embeddings_create e q = Inr v \<and> index_query e v 3 = Inr ms
        \<and> snd (POST e req) = [EmbeddingsCreate q, IndexQuery v 3]
        \<and> resp_sources (fst (POST e req)) = Some (map to_item ms)
        \<and> length (the (resp_sources (fst (POST e req)))) = length ms))
   \<and> item_score (to_item m) = (case m_score m of None \<Rightarrow> 0 | Some x \<Rightarrow> x)
   \<and> item_text (to_item m) =
       (case m_metadata m of None \<Rightarrow> []
        | Some md \<Rightarrow> (case md_text md of None \<Rightarrow> [] | Some t \<Rightarrow> t))
   \<and> item_source (to_item m) =
       (case m_metadata m of None \<Rightarrow> [0x75, 0x6E, 0x6B, 0x6E, 0x6F, 0x77, 0x6E]
        | Some md \<Rightarrow>
            (case md_source md of None \<Rightarrow> [0x75, 0x6E, 0x6B, 0x6E, 0x6F, 0x77, 0x6E]
             | Some s \<Rightarrow> if s = [] then [0x75, 0x6E, 0x6B, 0x6E, 0x6F, 0x77, 0x6E] else s))"
proof (intro conjI impI)
  assume "resp_success (fst (POST e req))"
  then obtain q v ms where
    "embeddings_create e q = Inr v" "index_query e v 3 = Inr ms"
    "POST e req =
       (\<lparr>resp_status = 200, resp_success = True,
         resp_context = take 500 (make_context (map to_item ms)),
         resp_error = None, resp_sources = Some (map to_item ms)\<rparr>,
        [EmbeddingsCreate q, IndexQuery v 3])"
    by (rule POST_success_cases)
  then show "\<exists>q v ms.
        embeddings_create e q = Inr v \<and> index_query e v 3 = Inr ms
        \<and> snd (POST e req) = [EmbeddingsCreate q, IndexQuery v 3]
        \<and> resp_sources (fst (POST e req)) = Some (map to_item ms)
        \<and> length (the (resp_sources (fst (POST e req)))) = length ms"
    by auto
next
  show "item_score (to_item m) = (case m_score m of None \<Rightarrow> 0 | Some x \<Rightarrow> x)"
    by (simp add: to_item_def split: option.splits)
next
  show "item_text (to_item m) =
       (case m_metadata m of None \<Rightarrow> []
        | Some md \<Rightarrow> (case md_text md of None \<Rightarrow> [] | Some t \<Rightarrow> t))"
    by (simp add: to_item_def split: option.splits)
next
  show "item_source (to_item m) =
       (case m_metadata m of None \<Rightarrow> [0x75, 0x6E, 0x6B, 0x6E, 0x6F, 0x77, 0x6E]
        | Some md \<Rightarrow>
            (case md_source md of None \<Rightarrow> [0x75, 0x6E, 0x6B, 0x6E, 0x6F, 0x77, 0x6E]
             | Some s \<Rightarrow> if s = [] then [0x75, 0x6E, 0x6B, 0x6E, 0x6F, 0x77, 0x6E] else s))"
    by (simp add: to_item_def unknown_def split: option.splits)
qed

theorem sources_hold_all_matches_witness:
  "resp_success (fst (POST example_env example_request))
   \<and> resp_sources (fst (POST example_env example_request)) =
       Some [\<lparr>item_score = 41 / 50, item_text = [0x58],
              item_source = [0x75, 0x6E, 0x6B, 0x6E, 0x6F, 0x77, 0x6E]\<rparr>,
             \<lparr>item_score = 1 / 20, item_text = [],
              item_source = [0x75, 0x6E, 0x6B, 0x6E, 0x6F, 0x77, 0x6E]\<rparr>]
   \<and> resp_context (fst (POST example_env example_request)) =
       [0x0A, 0x0A, 0x3010, 0x53C2, 0x8003, 0x60C5, 0x5831, 0x31, 0x3011, 0x3A, 0x20, 0x58]
   \<and> item_source (to_item \<lparr>m_score = Some (1 / 20), m_metadata = None\<rparr>) =
       [0x75, 0x6E, 0x6B, 0x6E, 0x6F, 0x77, 0x6E]"
proof -
  have ok: "resp_success (fst (POST example_env example_request))"
    by (simp add: example_POST)
  from sources_hold_all_matches
         [of example_env example_request "\<lparr>m_score = Some (1 / 20), m_metadata = None\<rparr>"] ok
  obtain v ms where qry: "index_query example_env v 3 = Inr ms"
    and src: "resp_sources (fst (POST example_env example_request)) = Some (map to_item ms)"
    and dflt: "item_source (to_item \<lparr>m_score = Some (1 / 20), m_metadata = None\<rparr>) =
       [0x75, 0x6E, 0x6B, 0x6E, 0x6F, 0x77, 0x6E]"
    by auto
  from qry have ms: "ms = [\<lparr>m_score = Some (41 / 50),
          m_metadata = Some \<lparr>md_text = Some [0x58], md_source = None\<rparr>\<rparr>,
         \<lparr>m_score = Some (1 / 20), m_metadata = None\<rparr>]"
    by (simp add: example_env_def)
  have "resp_sources (fst (POST example_env example_request)) =
       Some [\<lparr>item_score = 41 / 50, item_text = [0x58],
              item_source = [0x75, 0x6E, 0x6B, 0x6E, 0x6F, 0x77, 0x6E]\<rparr>,
             \<lparr>item_score = 1 / 20, item_text = [],
              item_source = [0x75, 0x6E, 0x6B, 0x6E, 0x6F, 0x77, 0x6E]\<rparr>]"
    unfolding src ms by (simp add: to_item_def unknown_def)
  with ok dflt show ?thesis by (simp add: example_POST)
qed

section \<open>Properties of the client side\<close>

lemma searchKnowledge_empty:
  "fetch q = FetchThrows \<or> (\<exists>d. fetch q = FetchData d \<and> (\<not> resp_success d \<or> resp_context d = []))
   \<Longrightarrow> searchKnowledge (fetch q) = []"
  by auto

lemma handleSend_plain:
  assumes "trim (message st) \<noteq> []"
    and "taskType st = REPEAT \<or> searchKnowledge (fetch (message st)) = []"
  shows "snd (handleSend fetch ok1 ok2 st) =
     (if ok1 then [(sender_of (taskType st) (taskMode st), message st)]
      else [(sender_of (taskType st) (taskMode st), message st),
            (sender_of (taskType st) (taskMode st), message st)])"
  using assms by (auto simp: handleSend_def Let_def)

lemma handleSend_augmented:
  assumes "trim (message st) \<noteq> []" and "taskType st = TALK"
    and "fetch (message st) = FetchData d" and "resp_success d" and "resp_context d \<noteq> []"
  shows "snd (handleSend fetch ok1 ok2 st) =
     (if ok1 then [(sender_of TALK (taskMode st), message st @ reference_label @ resp_context d)]
      else [(sender_of TALK (taskMode st), message st @ reference_label @ resp_context d),
            (sender_of TALK (taskMode st), message st)])"
  using assms by (auto simp: handleSend_def Let_def)

text \<open>
  C9: in a text turn (a message that is not blank) \<open>handleSend\<close> always calls a sender.
  In \<open>REPEAT\<close> mode no retrieval is made, and in \<open>TALK\<close> mode when the retrieval call
  fails, or answers without success or with an empty context, every call of the sender
  carries the user's original message, unmodified. When retrieval succeeds with a
  non-empty context in \<open>TALK\<close> mode, the message handed to the sender is the original
  text, then the label that presents what follows as reference material (two newlines,
  the Japanese sentence asking to refer to the following information, a colon and a
  newline), then the retrieved context.
\<close>

theorem text_turn_sends_message:
  assumes "trim (message st) \<noteq> []"
  shows "snd (handleSend fetch ok1 ok2 st) \<noteq> []
       \<and> (taskType st = REPEAT \<or> fetch (message st) = FetchThrows
            \<or> (\<exists>d. fetch (message st) = FetchData d \<and> (\<not> resp_success d \<or> resp_context d = []))
          \<longrightarrow> list_all (\<lambda>(s, m). s = sender_of (taskType st) (taskMode st) \<and> m = message st)
                   (snd (handleSend fetch ok1 ok2 st)))
       \<and> (\<forall>d. taskType st = TALK \<and> fetch (message st) = FetchData d
                \<and> resp_success d \<and> resp_context d \<noteq> []
          \<longrightarrow> hd (snd (handleSend fetch ok1 ok2 st)) =
                (sender_of TALK (taskMode st),
                 message st
                 @ [0x0A, 0x0A, 0x4EE5, 0x4E0B, 0x306E, 0x60C5, 0x5831, 0x3092, 0x53C2, 0x8003,
                    0x306B, 0x3057, 0x3066, 0x304F, 0x3060, 0x3055, 0x3044, 0x3A, 0x0A]
                 @ resp_context d)
              \<and> snd (handleSend fetch True ok2 st) =
                [(sender_of TALK (taskMode st),
                  message st
                  @ [0x0A, 0x0A, 0x4EE5, 0x4E0B, 0x306E, 0x60C5, 0x5831, 0x3092, 0x53C2, 0x8003,
                     0x306B, 0x3057, 0x3066, 0x304F, 0x3060, 0x3055, 0x3044, 0x3A, 0x0A]
                  @ resp_context d)])"
proof (intro conjI allI impI)
  show "snd (handleSend fetch ok1 ok2 st) \<noteq> []"
    using assms by (simp add: handleSend_def Let_def)
next
  assume "taskType st = REPEAT \<or> fetch (message st) = FetchThrows
            \<or> (\<exists>d. fetch (message st) = FetchData d \<and> (\<not> resp_success d \<or> resp_context d = []))"
  then have e: "taskType st = REPEAT \<or> searchKnowledge (fetch (message st)) = []"
    using searchKnowledge_empty [of fetch "message st"] by blast
  show "list_all (\<lambda>(s, m). s = sender_of (taskType st) (taskMode st) \<and> m = message st)
                   (snd (handleSend fetch ok1 ok2 st))"
    by (simp add: handleSend_plain [where fetch = fetch and st = st, OF assms e])
next
  fix d
  assume h: "taskType st = TALK \<and> fetch (message st) = FetchData d
                \<and> resp_success d \<and> resp_context d \<noteq> []"
  then have a: "taskType st = TALK" "fetch (message st) = FetchData d" "resp_success d"
    "resp_context d \<noteq> []" by simp_all
  show "hd (snd (handleSend fetch ok1 ok2 st)) =
                (sender_of TALK (taskMode st),
                 message st
                 @ [0x0A, 0x0A, 0x4EE5, 0x4E0B, 0x306E, 0x60C5, 0x5831, 0x3092, 0x53C2, 0x8003,
                    0x306B, 0x3057, 0x3066, 0x304F, 0x3060, 0x3055, 0x3044, 0x3A, 0x0A]
                 @ resp_context d)"
    by (simp add: handleSend_augmented [where fetch = fetch and st = st, OF assms a]
        reference_label_def)
  show "snd (handleSend fetch True ok2 st) =
                [(sender_of TALK (taskMode st),
                  message st
                  @ [0x0A, 0x0A, 0x4EE5, 0x4E0B, 0x306E, 0x60C5, 0x5831, 0x3092, 0x53C2, 0x8003,
                     0x306B, 0x3057, 0x3066, 0x304F, 0x3060, 0x3055, 0x3044, 0x3A, 0x0A]
                  @ resp_context d)]"
    by (simp add: handleSend_augmented [where fetch = fetch and st = st, OF assms a]
        reference_label_def)
qed

theorem text_turn_sends_message_witness:
  "trim (message example_input) \<noteq> []
   \<and> snd (handleSend (\<lambda>q. FetchThrows) True True example_input) = [(sendMessage, [0x68, 0x69])]
   \<and> snd (handleSend (\<lambda>q. FetchData example_data) True True
             (example_input\<lparr>taskType := REPEAT\<rparr>)) = [(repeatMessage, [0x68, 0x69])]
   \<and> snd (handleSend (\<lambda>q. FetchData example_data) True True example_input) =
        [(sendMessage,
          [0x68, 0x69,
           0x0A, 0x0A, 0x4EE5, 0x4E0B, 0x306E, 0x60C5, 0x5831, 0x3092, 0x53C2, 0x8003,
           0x306B, 0x3057, 0x3066, 0x304F, 0x3060, 0x3055, 0x3044, 0x3A, 0x0A,
           0x58])]"
proof -
  have t: "trim (message example_input) \<noteq> []"
    by (simp add: example_input_def trim_def is_ws_def)
  have t': "trim (message (example_input\<lparr>taskType := REPEAT\<rparr>)) \<noteq> []"
    using t by simp
  have f: "message example_input = [0x68, 0x69]" "taskType example_input = TALK"
    "taskMode example_input = ASYNC"
    by (simp_all add: example_input_def)
  have d: "resp_success example_data" "resp_context example_data = [0x58]"
    by (simp_all add: example_data_def)
  have one: "\<And>xs x. xs \<noteq> [] \<Longrightarrow> list_all (\<lambda>(s, m). s = fst x \<and> m = snd x) xs
      \<Longrightarrow> length xs = 1 \<Longrightarrow> xs = [x]"
    by (case_tac xs) auto
  have l1: "length (snd (handleSend (\<lambda>q. FetchThrows) True True example_input)) = 1"
    using t by (simp add: handleSend_def Let_def)
  have l2: "length (snd (handleSend (\<lambda>q. FetchData example_data) True True
             (example_input\<lparr>taskType := REPEAT\<rparr>))) = 1"
    using t' by (simp add: handleSend_def Let_def)
  from text_turn_sends_message [OF t, of "\<lambda>q. FetchThrows" True True]
  have 1: "snd (handleSend (\<lambda>q. FetchThrows) True True example_input) = [(sendMessage, [0x68, 0x69])]"
    by (intro one) (simp_all add: f l1)
  from text_turn_sends_message [OF t', of "\<lambda>q. FetchData example_data" True True]
  have 2: "snd (handleSend (\<lambda>q. FetchData example_data) True True
             (example_input\<lparr>taskType := REPEAT\<rparr>)) = [(repeatMessage, [0x68, 0x69])]"
    by (intro one) (simp_all add: f l2)
  from text_turn_sends_message [OF t, of "\<lambda>q. FetchData example_data" True True] d
  have 3: "snd (handleSend (\<lambda>q. FetchData example_data) True True example_input) =
        [(sendMessage,
          [0x68, 0x69,
           0x0A, 0x0A, 0x4EE5, 0x4E0B, 0x306E, 0x60C5, 0x5831, 0x3092, 0x53C2, 0x8003,
           0x306B, 0x3057, 0x3066, 0x304F, 0x3060, 0x3055, 0x3044, 0x3A, 0x0A,
           0x58])]"
    by (simp add: f)
  from t 1 2 3 show ?thesis by simp
qed

lemma searches_start_search: "searches (start_search s k m) = Suc (searches s)"
  by (simp add: searches_def start_search_def)

lemma isVoice_start_search: "isVoice (start_search s k m) = isVoice s"
  by (simp add: start_search_def)

lemma lastUserMessageRef_start_search:
  "lastUserMessageRef (start_search s k m) = lastUserMessageRef s"
  by (simp add: start_search_def)

text \<open>
  C1, as stated, fails: in a voice session, after the user said \<open>"hi"\<close>, the
  \<open>USER_STOP\<close> handler and the \<open>USER_END_MESSAGE\<close> handler each call the search, so the
  turn has two retrieval calls.
\<close>

theorem stop_then_end_message_searches_twice_counterexample:
  "effects (run (start_session True)
     [USER_START,
      USER_TALKING_MESSAGE \<lparr>detail_message = Some [0x68, 0x69], detail_text = None,
                             event_message = None\<rparr>,
      USER_STOP,
      USER_END_MESSAGE \<lparr>detail_message = None, detail_text = None, event_message = None\<rparr>])
   = [Search 0 [0x68, 0x69], Search 1 [0x68, 0x69]]
   \<and> searches (run (start_session True)
     [USER_START,
      USER_TALKING_MESSAGE \<lparr>detail_message = Some [0x68, 0x69], detail_text = None,
                             event_message = None\<rparr>,
      USER_STOP,
      USER_END_MESSAGE \<lparr>detail_message = None, detail_text = None, event_message = None\<rparr>])
   = 2"
  by (simp add: run_def start_session_def start_search_def searches_def Let_def)

text \<open>
  C1, amended: in a voice session, for a turn whose captured text is not empty,
  \<open>USER_STOP\<close> followed by \<open>USER_END_MESSAGE\<close> invokes the retrieval twice, once in each
  handler, whatever the payload of the second event: there is no per-turn flag.
\<close>

theorem stop_then_end_message_searches_twice:
  assumes "isVoice s" and "str_or (detail_message p) (str_or (detail_text p) []) \<noteq> []"
  shows "searches (run s [USER_START, USER_TALKING_MESSAGE p, USER_STOP, USER_END_MESSAGE p'])
         = searches s + 2"
proof -
  define s1 where "s1 = handle (handle s USER_START) (USER_TALKING_MESSAGE p)"
  have v: "isVoice s1" and n: "searches s1 = searches s"
    and m: "lastUserMessageRef s1 = str_or (detail_message p) (str_or (detail_text p) [])"
    using assms by (simp_all add: s1_def Let_def searches_def)
  define s2 where "s2 = handle s1 USER_STOP"
  have s2: "s2 = start_search s1 InUserStop (lastUserMessageRef s1)"
    using v m assms(2) by (simp add: s2_def)
  have e: "searches (handle s2 (USER_END_MESSAGE p')) = Suc (searches s2)"
    using v m assms(2)
    by (cases "detail_message p'"; cases "detail_text p'"; cases "event_message p'")
       (simp_all add: s2 Let_def searches_start_search isVoice_start_search
          lastUserMessageRef_start_search)
  have r: "run s [USER_START, USER_TALKING_MESSAGE p, USER_STOP, USER_END_MESSAGE p']
           = handle s2 (USER_END_MESSAGE p')"
    unfolding run_def s2_def s1_def by (simp only: foldl.simps)
  have "searches s2 = Suc (searches s)"
    by (simp only: s2 searches_start_search n)
  with e r show ?thesis by simp
qed

theorem stop_then_end_message_searches_twice_witness:
  "isVoice (start_session True)
   \<and> str_or (Some [0x68, 0x69]) (str_or None []) \<noteq> []
   \<and> searches (run (start_session True)
       [USER_START,
        USER_TALKING_MESSAGE \<lparr>detail_message = Some [0x68, 0x69], detail_text = None,
                               event_message = None\<rparr>,
        USER_STOP,
        USER_END_MESSAGE \<lparr>detail_message = Some [0x68, 0x69], detail_text = None,
                               event_message = None\<rparr>]) = 2"
proof -
  have v: "isVoice (start_session True)" by (simp add: start_session_def)
  have z: "searches (start_session True) = 0" by (simp add: start_session_def searches_def)
  have p: "str_or (detail_message \<lparr>detail_message = Some [0x68, 0x69], detail_text = None,
                               event_message = None\<rparr>)
            (str_or (detail_text \<lparr>detail_message = Some [0x68, 0x69], detail_text = None,
                               event_message = None\<rparr>) []) \<noteq> []"
    by simp
  from stop_then_end_message_searches_twice [OF v p] v z show ?thesis by simp
qed







end
